theory Spec2Isabelle
  imports Complex_Main "HOL-Library.Sublist"
begin

section \<open>Signature engine: coordinate transformation and field rendering\<close>

text \<open>
  A shallow embedding of \<^verbatim>\<open>backend/server.js\<close> (the percent-to-points transform, the
  aspect-ratio fit and the field loop of the \<^verbatim>\<open>/sign-pdf\<close> handler) and of the two
  coordinate helpers of \<^verbatim>\<open>frontend/src/App.jsx\<close>.

  JavaScript numbers are modelled as the real numbers: every arithmetic expression of
  the source is kept operator by operator, evaluated exactly. Rounding to IEEE doubles,
  \<^verbatim>\<open>NaN\<close> and the infinities are outside the model; wherever a divisor can be zero the
  theorems carry the hypothesis that excludes it.
\<close>

subsection \<open>Data\<close>

text \<open>
  The object \<^verbatim>\<open>{ x, y, width, height }\<close>: \<^verbatim>\<open>field.coordinates\<close> in percent on the way in,
  the result of \<^verbatim>\<open>transformCoordinatesToPDF\<close> in points on the way out, and the pixel
  rectangles of the editor.
\<close>

record rect =
  x :: real
  y :: real
  width :: real
  height :: real

text \<open>
  The object \<^verbatim>\<open>{ width, height }\<close> passed as \<^verbatim>\<open>pdfPageDimensions\<close>; the fields carry the
  names the source destructures them to.
\<close>

record pdfPageDimensions =
  pageWidth :: real
  pageHeight :: real

text \<open>
  The object \<^verbatim>\<open>{ width: finalWidth, height: finalHeight, offsetX, offsetY }\<close> returned by
  \<^verbatim>\<open>calculateAspectRatioFit\<close>; the first two fields carry the names of the local
  variables they are read from.
\<close>

record fitted =
  finalWidth :: real
  finalHeight :: real
  offsetX :: real
  offsetY :: real

subsection \<open>server.js: transformCoordinatesToPDF\<close>

definition transformCoordinatesToPDF :: "rect \<Rightarrow> pdfPageDimensions \<Rightarrow> rect" where
  "transformCoordinatesToPDF percentCoords dims =
     (let xPercent = x percentCoords;
          yPercent = y percentCoords;
          widthPercent = width percentCoords;
          heightPercent = height percentCoords;
          xPoints = (xPercent / 100) * pageWidth dims;
          yPointsFromTop = (yPercent / 100) * pageHeight dims;
          widthPoints = (widthPercent / 100) * pageWidth dims;
          heightPoints = (heightPercent / 100) * pageHeight dims;
          yPointsFromBottom = pageHeight dims - yPointsFromTop - heightPoints
      in \<lparr>x = xPoints, y = yPointsFromBottom, width = widthPoints, height = heightPoints\<rparr>)"

text \<open>
  Modelled from the spec: the inverse transform (points to percent) is not part of the
  source, which only ever converts percent to points. The specification calls it the
  exact algebraic inverse of the forward transform: each horizontal quantity is divided
  by the page width, each vertical one by the page height, and the distance from the top
  edge is recovered from the bottom-left ordinate by undoing the origin flip.
\<close>

definition pointsToPercent :: "rect \<Rightarrow> pdfPageDimensions \<Rightarrow> rect" where
  "pointsToPercent pts dims =
     (let yPointsFromTop = pageHeight dims - y pts - height pts
      in \<lparr>x = (x pts / pageWidth dims) * 100,
          y = (yPointsFromTop / pageHeight dims) * 100,
          width = (width pts / pageWidth dims) * 100,
          height = (height pts / pageHeight dims) * 100\<rparr>)"



subsection \<open>server.js: calculateAspectRatioFit\<close>

text \<open>The two branches of the function, each as the source writes it.\<close>

definition fitToWidth :: "real \<Rightarrow> real \<Rightarrow> real \<Rightarrow> fitted" where
  "fitToWidth boxWidth boxHeight imgRatio =
     (let finalWidth' = boxWidth;
          finalHeight' = boxWidth / imgRatio;
          offsetY' = (boxHeight - finalHeight') / 2
      in \<lparr>finalWidth = finalWidth', finalHeight = finalHeight', offsetX = 0, offsetY = offsetY'\<rparr>)"

definition fitToHeight :: "real \<Rightarrow> real \<Rightarrow> real \<Rightarrow> fitted" where
  "fitToHeight boxWidth boxHeight imgRatio =
     (let finalHeight' = boxHeight;
          finalWidth' = boxHeight * imgRatio;
          offsetX' = (boxWidth - finalWidth') / 2
      in \<lparr>finalWidth = finalWidth', finalHeight = finalHeight', offsetX = offsetX', offsetY = 0\<rparr>)"

definition calculateAspectRatioFit :: "real \<Rightarrow> real \<Rightarrow> real \<Rightarrow> real \<Rightarrow> fitted" where
  "calculateAspectRatioFit boxWidth boxHeight imgWidth imgHeight =
     (let boxRatio = boxWidth / boxHeight;
          imgRatio = imgWidth / imgHeight
      in if imgRatio > boxRatio then fitToWidth boxWidth boxHeight imgRatio
         else fitToHeight boxWidth boxHeight imgRatio)"

subsection \<open>App.jsx: pixelToPercentage and percentageToPixel\<close>

text \<open>
  Both helpers close over the component state \<^verbatim>\<open>pageWidth\<close>, \<^verbatim>\<open>pageHeight\<close> and
  \<^verbatim>\<open>scale = containerWidth / pageWidth\<close>; the model passes them as arguments.
\<close>

definition scaleOf :: "real \<Rightarrow> pdfPageDimensions \<Rightarrow> real" where
  "scaleOf containerWidth dims = containerWidth / pageWidth dims"

definition pixelToPercentage ::
  "real \<Rightarrow> pdfPageDimensions \<Rightarrow> real \<Rightarrow> real \<Rightarrow> real \<Rightarrow> real \<Rightarrow> rect" where
  "pixelToPercentage scale dims pixelX pixelY pixelWidth pixelHeight =
     (let actualX = pixelX / scale;
          actualY = pixelY / scale;
          actualWidth = pixelWidth / scale;
          actualHeight = pixelHeight / scale
      in \<lparr>x = (actualX / pageWidth dims) * 100,
          y = (actualY / pageHeight dims) * 100,
          width = (actualWidth / pageWidth dims) * 100,
          height = (actualHeight / pageHeight dims) * 100\<rparr>)"

definition percentageToPixel :: "real \<Rightarrow> pdfPageDimensions \<Rightarrow> rect \<Rightarrow> rect" where
  "percentageToPixel scale dims field =
     \<lparr>x = (x field / 100) * pageWidth dims * scale,
      y = (y field / 100) * pageHeight dims * scale,
      width = (width field / 100) * pageWidth dims * scale,
      height = (height field / 100) * pageHeight dims * scale\<rparr>"

subsection \<open>server.js: the field loop of the /sign-pdf handler\<close>

text \<open>
  A field of the request body. \<^verbatim>\<open>type\<close> and \<^verbatim>\<open>value\<close> are reserved words of the theory
  language, hence \<open>fieldType\<close> and \<open>fieldValue\<close>. A property that is \<^verbatim>\<open>null\<close> or missing
  is \<open>None\<close>.
\<close>

record field =
  fieldType :: string
  coordinates :: rect
  fieldValue :: "string option"
  imageData :: "string option"
  checked :: bool

type_synonym bytes = string

text \<open>
  An image embedded in the document; \<^verbatim>\<open>embeddedImage.scale(1)\<close> reads its natural size.
\<close>

record pdfImage =
  imageBytes :: bytes
  naturalWidth :: real
  naturalHeight :: real

text \<open>
  What the handler takes from its libraries and from the clock: \<^verbatim>\<open>Buffer.from(_, 'base64')\<close>,
  \<^verbatim>\<open>pdfDoc.embedPng\<close> and \<^verbatim>\<open>pdfDoc.embedJpg\<close> (\<open>None\<close> when the call throws), and
  \<^verbatim>\<open>new Date().toLocaleDateString()\<close>. They are parameters of the model.
\<close>

record env =
  base64 :: "string \<Rightarrow> bytes"
  embedPng :: "bytes \<Rightarrow> pdfImage option"
  embedJpg :: "bytes \<Rightarrow> pdfImage option"
  toLocaleDateString :: string

text \<open>
  The drawing calls on \<^verbatim>\<open>firstPage\<close>, each appending one mark to the page:
  \<^verbatim>\<open>drawImage(image, {x, y, width, height})\<close>, \<^verbatim>\<open>drawText(text, {x, y, size})\<close> and
  \<^verbatim>\<open>drawCircle({x, y, size})\<close>, all in \<^verbatim>\<open>rgb(0, 0, 0)\<close> where a colour is given. The
  calls are taken to succeed on the strings and numbers of the model.
\<close>

datatype mark =
  DrawImage pdfImage real real real real
  | DrawText string real real real
  | DrawCircle real real real

text \<open>
  The state the loop changes: the marks drawn on the first page, in drawing order, and the
  lines written with \<^verbatim>\<open>console.error\<close>. (The \<^verbatim>\<open>console.log\<close> lines are not modelled.)
\<close>

record docState =
  firstPage :: "mark list"
  errorLog :: "string list"

datatype error = TypeError

text \<open>\<^verbatim>\<open>s.split(sep)\<close> for a one-character separator: never empty, one more part than separators.\<close>

fun jsSplit :: "char \<Rightarrow> string \<Rightarrow> string list" where
  "jsSplit sep [] = [[]]"
| "jsSplit sep (c # cs) =
     (if c = sep then [] # jsSplit sep cs
      else (case jsSplit sep cs of [] \<Rightarrow> [[c]] | w # ws \<Rightarrow> (c # w) # ws))"

text \<open>\<^verbatim>\<open>s.includes(sub)\<close>: \<open>sub\<close> occurs in \<open>s\<close> as a contiguous substring.\<close>

fun strIncludes :: "string \<Rightarrow> string \<Rightarrow> bool" where
  "strIncludes [] sub = (sub = [])"
| "strIncludes (c # cs) sub = (prefix sub (c # cs) \<or> strIncludes cs sub)"

text \<open>Truthiness of a property that holds a string, \<^verbatim>\<open>null\<close> or nothing.\<close>

definition truthy :: "string option \<Rightarrow> bool" where
  "truthy v = (case v of None \<Rightarrow> False | Some s \<Rightarrow> s \<noteq> [])"

text \<open>
  The \<^verbatim>\<open>signature\<close>/\<^verbatim>\<open>image\<close> case once \<^verbatim>\<open>field.imageData\<close> is known to be the truthy string
  \<open>d\<close>. \<^verbatim>\<open>d.split(',')[1]\<close> is \<^verbatim>\<open>undefined\<close> when \<open>d\<close> has no comma, and \<^verbatim>\<open>Buffer.from\<close> then
  throws a \<^verbatim>\<open>TypeError\<close> outside the inner \<^verbatim>\<open>try\<close>. A failure of the embed call is caught:
  one line on \<^verbatim>\<open>console.error\<close>, then \<^verbatim>\<open>continue\<close>.
\<close>

definition drawImageField :: "env \<Rightarrow> rect \<Rightarrow> string \<Rightarrow> docState \<Rightarrow> error + docState" where
  "drawImageField e pdfCoords d st =
     (case jsSplit CHR '','' d of
        _ # payload # _ \<Rightarrow>
          (let imageBytes = base64 e payload;
               embeddedImage =
                 (if strIncludes d ''image/png'' then embedPng e imageBytes
                  else embedJpg e imageBytes)
           in case embeddedImage of
                None \<Rightarrow> Inr (st\<lparr>errorLog := errorLog st @ [''Image embed error:'']\<rparr>)
              | Some img \<Rightarrow>
                  (let fitted = calculateAspectRatioFit (width pdfCoords) (height pdfCoords)
                                  (naturalWidth img) (naturalHeight img)
                   in Inr (st\<lparr>firstPage := firstPage st @
                        [DrawImage img (x pdfCoords + offsetX fitted) (y pdfCoords + offsetY fitted)
                           (finalWidth fitted) (finalHeight fitted)]\<rparr>)))
      | _ \<Rightarrow> Inl TypeError)"

text \<open>
  One iteration of \<^verbatim>\<open>for (const field of fields)\<close>: the transform, then the \<^verbatim>\<open>switch\<close> on
  \<^verbatim>\<open>field.type\<close>. The switch has no \<^verbatim>\<open>default\<close> case.
\<close>

definition renderField :: "env \<Rightarrow> pdfPageDimensions \<Rightarrow> field \<Rightarrow> docState \<Rightarrow> error + docState" where
  "renderField e dims field st =
     (let pdfCoords = transformCoordinatesToPDF (coordinates field) dims in
      if fieldType field = ''signature'' \<or> fieldType field = ''image'' then
        (if truthy (imageData field) then drawImageField e pdfCoords (the (imageData field)) st
         else Inr st)
      else if fieldType field = ''text'' then
        (if truthy (fieldValue field) then
           Inr (st\<lparr>firstPage := firstPage st @
             [DrawText (the (fieldValue field)) (x pdfCoords + 5)
                (y pdfCoords + height pdfCoords / 2) (min (height pdfCoords * 0.6) 12)]\<rparr>)
         else Inr st)
      else if fieldType field = ''date'' then
        (let dateValue = (if truthy (fieldValue field) then the (fieldValue field)
                          else toLocaleDateString e)
         in Inr (st\<lparr>firstPage := firstPage st @
              [DrawText dateValue (x pdfCoords + 5)
                 (y pdfCoords + height pdfCoords / 2) (min (height pdfCoords * 0.6) 12)]\<rparr>))
      else if fieldType field = ''radio'' then
        (if checked field then
           (let centerX = x pdfCoords + width pdfCoords / 2;
                centerY = y pdfCoords + height pdfCoords / 2;
                radius = min (width pdfCoords) (height pdfCoords) / 3
            in Inr (st\<lparr>firstPage := firstPage st @ [DrawCircle centerX centerY radius]\<rparr>))
         else Inr st)
      else Inr st)"

text \<open>The loop: fields in order; an exception that escapes an iteration ends it.\<close>

fun processFields ::
  "env \<Rightarrow> pdfPageDimensions \<Rightarrow> field list \<Rightarrow> docState \<Rightarrow> error + docState" where
  "processFields e dims [] st = Inr st"
| "processFields e dims (f # fs) st =
     (case renderField e dims f st of
        Inl err \<Rightarrow> Inl err
      | Inr st' \<Rightarrow> processFields e dims fs st')"


text \<open>
  The result of a request that reaches \<^verbatim>\<open>pdfDoc.save()\<close>: the document as drawn, and the
  \<^verbatim>\<open>fieldsApplied\<close> count of the audit record. Serialising, hashing and storing are
  functions of these and are not modelled.
\<close>

record signed =
  document :: docState
  fieldsApplied :: nat

text \<open>
  The handler from \<^verbatim>\<open>{ fields, pdfDimensions }\<close>, the two properties it destructures from
  the parsed \<^verbatim>\<open>req.body.data\<close> (\<open>reqFields\<close> is \<^verbatim>\<open>fields\<close>, a name the record package
  takes), and the loaded document, given by the sizes of its pages.
  \<^verbatim>\<open>pdfDimensions\<close> (the page size the client reports, if any) is not read again; the page
  size is \<^verbatim>\<open>pages[0].getSize()\<close>, a \<^verbatim>\<open>TypeError\<close> when the document has no page. \<open>Inl\<close> is
  the outer \<^verbatim>\<open>catch\<close>: the response with status 500.
\<close>

definition signPdf ::
  "env \<Rightarrow> field list \<Rightarrow> pdfPageDimensions option \<Rightarrow> pdfPageDimensions list \<Rightarrow> error + signed" where
  "signPdf e reqFields pdfDimensions pages =
     (case pages of
        [] \<Rightarrow> Inl TypeError
      | firstPageSize # _ \<Rightarrow>
          (case processFields e firstPageSize reqFields \<lparr>firstPage = [], errorLog = []\<rparr> of
             Inl err \<Rightarrow> Inl err
           | Inr st \<Rightarrow> Inr \<lparr>document = st, fieldsApplied = length reqFields\<rparr>))"

subsection \<open>Sample data\<close>

text \<open>A codec that rejects every buffer, and one that accepts every buffer as a 300 by 100 image.\<close>

definition rejectAll :: "bytes \<Rightarrow> pdfImage option" where
  "rejectAll b = None"

definition acceptAll :: "bytes \<Rightarrow> pdfImage option" where
  "acceptAll b = Some \<lparr>imageBytes = b, naturalWidth = 300, naturalHeight = 100\<rparr>"

definition noDecode :: "string \<Rightarrow> bytes" where
  "noDecode s = s"

definition corruptEnv :: env where
  "corruptEnv = \<lparr>base64 = noDecode, embedPng = rejectAll, embedJpg = acceptAll,
                 toLocaleDateString = ''11/2/2026''\<rparr>"

definition usLetter :: pdfPageDimensions where
  "usLetter = \<lparr>pageWidth = 612, pageHeight = 792\<rparr>"

definition placement :: rect where
  "placement = \<lparr>x = 10, y = 20, width = 25, height = 6\<rparr>"

definition blank :: docState where
  "blank = \<lparr>firstPage = [], errorLog = []\<rparr>"

definition corruptSignature :: field where
  "corruptSignature = \<lparr>fieldType = ''signature'', coordinates = placement, fieldValue = Some [],
     imageData = Some ''data:image/png;base64,AAAA'', checked = False\<rparr>"

definition nameText :: field where
  "nameText = \<lparr>fieldType = ''text'', coordinates = placement, fieldValue = Some ''Ada'',
     imageData = None, checked = False\<rparr>"

definition emptyText :: field where
  "emptyText = \<lparr>fieldType = ''text'', coordinates = placement, fieldValue = Some [],
     imageData = None, checked = False\<rparr>"

definition checkbox :: field where
  "checkbox = \<lparr>fieldType = ''checkbox'', coordinates = placement, fieldValue = Some ''yes'',
     imageData = None, checked = True\<rparr>"

section \<open>Properties\<close>

lemma transformCoordinatesToPDF_sel:
  "x (transformCoordinatesToPDF p d) = (x p / 100) * pageWidth d"
  "y (transformCoordinatesToPDF p d) =
     pageHeight d - (y p / 100) * pageHeight d - (height p / 100) * pageHeight d"
  "width (transformCoordinatesToPDF p d) = (width p / 100) * pageWidth d"
  "height (transformCoordinatesToPDF p d) = (height p / 100) * pageHeight d"
  by (simp_all add: transformCoordinatesToPDF_def Let_def)






subsection \<open>The forward transform\<close>

text \<open>
  Claim C1. For every placement and every page size the forward transform returns
  \<open>x = (x/100) * pageWidth\<close>, \<open>width = (width/100) * pageWidth\<close>,
  \<open>height = (height/100) * pageHeight\<close> and the bottom-left ordinate
  \<open>pageHeight - (y/100) * pageHeight - height\<close> in points: the origin flip subtracts the
  box's own height. On a 612 by 792 page the placement \<open>{x:10, y:20, width:25, height:6}\<close>
  maps to \<open>x = 61.2\<close>, \<open>y = 586.08\<close>, \<open>width = 153.0\<close>, \<open>height = 47.52\<close>.
\<close>

theorem transformCoordinatesToPDF_formula:
  "transformCoordinatesToPDF p d =
     \<lparr>x = (x p / 100) * pageWidth d,
      y = pageHeight d - (y p / 100) * pageHeight d - (height p / 100) * pageHeight d,
      width = (width p / 100) * pageWidth d,
      height = (height p / 100) * pageHeight d\<rparr>
   \<and> transformCoordinatesToPDF \<lparr>x = 10, y = 20, width = 25, height = 6\<rparr>
         \<lparr>pageWidth = 612, pageHeight = 792\<rparr> =
       \<lparr>x = 61.2, y = 586.08, width = 153.0, height = 47.52\<rparr>"
  by (simp add: transformCoordinatesToPDF_def Let_def)

text \<open>
  Claim C2. On a page of positive width and height, converting a placement to points and
  back with the inverse transform returns the placement. In exact arithmetic the two
  sides are equal, for every placement (the in-range bounds are not needed); in
  particular the forward transform of the source loses nothing: it is injective.
\<close>

theorem pointsToPercent_round_trip:
  assumes "0 < pageWidth d" and "0 < pageHeight d"
  shows "pointsToPercent (transformCoordinatesToPDF p d) d = p
       \<and> inj (\<lambda>q. transformCoordinatesToPDF q d)"
proof -
  have inv: "pointsToPercent (transformCoordinatesToPDF q d) d = q" for q
    using assms
    by (simp add: pointsToPercent_def transformCoordinatesToPDF_sel Let_def field_simps)
  have "inj (\<lambda>q. transformCoordinatesToPDF q d)"
    by (rule inj_on_inverseI [where g = "\<lambda>r. pointsToPercent r d"]) (simp add: inv)
  with inv show ?thesis by simp
qed

theorem pointsToPercent_round_trip_witness:
  "pointsToPercent
     (transformCoordinatesToPDF \<lparr>x = 10, y = 20, width = 25, height = 6\<rparr>
        \<lparr>pageWidth = 612, pageHeight = 792\<rparr>)
     \<lparr>pageWidth = 612, pageHeight = 792\<rparr>
   = \<lparr>x = 10, y = 20, width = 25, height = 6\<rparr>"
  using pointsToPercent_round_trip
    [of "\<lparr>pageWidth = 612, pageHeight = 792\<rparr>" "\<lparr>x = 10, y = 20, width = 25, height = 6\<rparr>"]
  by simp



subsection \<open>The aspect-ratio fit\<close>





subsection \<open>The editor's transform\<close>

text \<open>
  Claim C9. For a positive scale factor and positive page dimensions the editor maps a
  pixel rectangle to percent by \<open>pixel / scale / pageDimension * 100\<close>, the same way on
  both axes (no origin flip: \<open>y\<close> is treated as \<open>x\<close> is, with the page height in place of
  the page width), and \<open>percentageToPixel\<close> undoes it: the pixel rectangle comes back.
\<close>

theorem percentageToPixel_pixelToPercentage:
  assumes "0 < scale" "0 < pageWidth d" "0 < pageHeight d"
  shows "pixelToPercentage scale d pixelX pixelY pixelWidth pixelHeight =
           \<lparr>x = pixelX / scale / pageWidth d * 100,
            y = pixelY / scale / pageHeight d * 100,
            width = pixelWidth / scale / pageWidth d * 100,
            height = pixelHeight / scale / pageHeight d * 100\<rparr>
       \<and> percentageToPixel scale d
           (pixelToPercentage scale d pixelX pixelY pixelWidth pixelHeight) =
           \<lparr>x = pixelX, y = pixelY, width = pixelWidth, height = pixelHeight\<rparr>"
  using assms
  by (simp add: pixelToPercentage_def percentageToPixel_def Let_def)

theorem percentageToPixel_pixelToPercentage_witness:
  "scaleOf 800 \<lparr>pageWidth = 400, pageHeight = 500\<rparr> = 2
   \<and> pixelToPercentage 2 \<lparr>pageWidth = 400, pageHeight = 500\<rparr> 80 100 150 50 =
       \<lparr>x = 10, y = 10, width = 18.75, height = 5\<rparr>
   \<and> percentageToPixel 2 \<lparr>pageWidth = 400, pageHeight = 500\<rparr>
       (pixelToPercentage 2 \<lparr>pageWidth = 400, pageHeight = 500\<rparr> 80 100 150 50) =
       \<lparr>x = 80, y = 100, width = 150, height = 50\<rparr>"
  using percentageToPixel_pixelToPercentage
    [of 2 "\<lparr>pageWidth = 400, pageHeight = 500\<rparr>" 80 100 150 50]
  by (simp add: scaleOf_def pixelToPercentage_def percentageToPixel_def Let_def)

subsection \<open>The field loop\<close>






text \<open>
  A data URL without a comma is not a decode failure: the exception is thrown before the
  inner \<^verbatim>\<open>try\<close> and ends the request.
\<close>

lemma no_comma_aborts:
  "signPdf corruptEnv [corruptSignature\<lparr>imageData := Some ''AAAA''\<rparr>, nameText] None [usLetter] =
     Inl TypeError"
  by (simp add: signPdf_def renderField_def drawImageField_def corruptSignature_def truthy_def
      Let_def)

text \<open>
  Claim C6 says that a field whose type tag is none of the recognised ones makes the
  dispatch raise a fatal error that aborts the request. The switch has no default case:
  at the tag \<open>checkbox\<close> the iteration returns normally with the page and the log as they
  were, and the request succeeds with the next field drawn.
\<close>

theorem unknown_type_counterexample:
  "fieldType checkbox \<notin> {''signature'', ''image'', ''text'', ''date'', ''radio''}
   \<and> renderField corruptEnv usLetter checkbox blank = Inr blank
   \<and> signPdf corruptEnv [checkbox, nameText] None [usLetter] =
       Inr \<lparr>document = \<lparr>firstPage = [DrawText ''Ada'' 66.2 609.84 12], errorLog = []\<rparr>,
            fieldsApplied = 2\<rparr>"
  by (simp add: signPdf_def renderField_def checkbox_def nameText_def truthy_def blank_def
      usLetter_def placement_def transformCoordinatesToPDF_def Let_def)

text \<open>
  Claim C6 as amended. A field whose type tag is none of \<open>signature\<close>, \<open>image\<close>, \<open>text\<close>,
  \<open>date\<close>, \<open>radio\<close> draws nothing and raises nothing: the page and the log are left as
  they were, and the loop goes on with the fields that follow.
\<close>

theorem unknown_type_skipped:
  assumes "fieldType f \<notin> {''signature'', ''image'', ''text'', ''date'', ''radio''}"
  shows "renderField e dims f st = Inr st
       \<and> processFields e dims (f # fs) st = processFields e dims fs st"
proof -
  have "renderField e dims f st = Inr st"
    using assms by (simp add: renderField_def Let_def)
  then show ?thesis by simp
qed

theorem unknown_type_skipped_witness:
  "renderField corruptEnv usLetter checkbox blank = Inr blank
   \<and> processFields corruptEnv usLetter [checkbox, nameText] blank =
       processFields corruptEnv usLetter [nameText] blank"
  using unknown_type_skipped [of checkbox corruptEnv usLetter blank "[nameText]"]
  by (simp add: checkbox_def)



text \<open>
  Claim C8. Two requests that differ only in the page size the client reports produce
  the same result: the rectangles are computed from the size of the first page of the
  loaded document, and \<^verbatim>\<open>pdfDimensions\<close> is never read.
\<close>

theorem signPdf_ignores_pdfDimensions:
  "signPdf e reqFields hint1 pages = signPdf e reqFields hint2 pages"
  by (simp add: signPdf_def)

theorem signPdf_ignores_pdfDimensions_witness:
  "signPdf corruptEnv [nameText] (Some \<lparr>pageWidth = 1, pageHeight = 1\<rparr>) [usLetter] =
     signPdf corruptEnv [nameText] None [usLetter]
   \<and> signPdf corruptEnv [nameText] None [usLetter] =
       Inr \<lparr>document = \<lparr>firstPage = [DrawText ''Ada'' 66.2 609.84 12], errorLog = []\<rparr>,
            fieldsApplied = 1\<rparr>"
proof -
  have "signPdf corruptEnv [nameText] None [usLetter] =
       Inr \<lparr>document = \<lparr>firstPage = [DrawText ''Ada'' 66.2 609.84 12], errorLog = []\<rparr>,
            fieldsApplied = 1\<rparr>"
    by (simp add: signPdf_def renderField_def nameText_def truthy_def
      usLetter_def placement_def transformCoordinatesToPDF_def Let_def)
  then show ?thesis
    using signPdf_ignores_pdfDimensions
      [of corruptEnv "[nameText]" "Some \<lparr>pageWidth = 1, pageHeight = 1\<rparr>" "[usLetter]" None]
    by simp
qed

text \<open>
  Claim C10. A text field whose value is empty or absent, and a signature or image field
  whose image data is absent (or the empty string), returns the state it was given: no
  mark on the page, no line on \<^verbatim>\<open>console.error\<close>, no exception; the loop goes on with the
  next field.
\<close>

theorem empty_field_skipped:
  assumes "(fieldType f = ''text'' \<and> (fieldValue f = None \<or> fieldValue f = Some []))
         \<or> ((fieldType f = ''signature'' \<or> fieldType f = ''image'')
             \<and> (imageData f = None \<or> imageData f = Some []))"
  shows "renderField e dims f st = Inr st
       \<and> processFields e dims (f # fs) st = processFields e dims fs st"
proof -
  have "renderField e dims f st = Inr st"
    using assms by (auto simp add: renderField_def Let_def truthy_def)
  then show ?thesis by simp
qed

theorem empty_field_skipped_witness:
  "renderField corruptEnv usLetter emptyText blank = Inr blank
   \<and> renderField corruptEnv usLetter (corruptSignature\<lparr>imageData := None\<rparr>) blank = Inr blank"
  using empty_field_skipped [of emptyText corruptEnv usLetter blank "[]"]
    empty_field_skipped [of "corruptSignature\<lparr>imageData := None\<rparr>" corruptEnv usLetter blank "[]"]
  by (simp add: emptyText_def corruptSignature_def)


end
